theory Spec2Isabelle
  imports Main "HOL-Library.Word"
begin

unbundle bit_operations_syntax

section \<open>Documents\<close>

text \<open>
  The comparator works on Go values of type \<open>interface{}\<close> as they come out of a YAML or
  JSON decoder. Every constructor below is one dynamic Go type. Sized integers are words
  of their width (\<open>int\<close> and \<open>uint\<close> are 64 bits wide), a \<open>float64\<close> is its IEEE-754
  bit pattern, a \<open>map[string]interface{}\<close> is an association list and a
  \<open>[]interface{}\<close> is a list.
\<close>

datatype doc =
    DNil
  | DBool bool
  | DInt "64 word"
  | DInt8 "8 word"
  | DInt16 "16 word"
  | DInt32 "32 word"
  | DInt64 "64 word"
  | DUint "64 word"
  | DUint8 "8 word"
  | DUint16 "16 word"
  | DUint32 "32 word"
  | DUint64 "64 word"
  | DFloat64 "64 word"
  | DString string
  | DList "doc list"
  | DMap "(string \<times> doc) list"

text \<open>The kinds of \<open>reflect.Kind\<close> that \<open>typesComparable\<close> names or that a document has.\<close>

datatype kind =
    KInvalid | KBool
  | KInt | KInt8 | KInt16 | KInt32 | KInt64
  | KUint | KUint8 | KUint16 | KUint32 | KUint64
  | KFloat64 | KComplex64 | KComplex128
  | KString | KSlice | KMap

fun kind_of :: "doc \<Rightarrow> kind" where
  "kind_of DNil = KInvalid"
| "kind_of (DBool _) = KBool"
| "kind_of (DInt _) = KInt"
| "kind_of (DInt8 _) = KInt8"
| "kind_of (DInt16 _) = KInt16"
| "kind_of (DInt32 _) = KInt32"
| "kind_of (DInt64 _) = KInt64"
| "kind_of (DUint _) = KUint"
| "kind_of (DUint8 _) = KUint8"
| "kind_of (DUint16 _) = KUint16"
| "kind_of (DUint32 _) = KUint32"
| "kind_of (DUint64 _) = KUint64"
| "kind_of (DFloat64 _) = KFloat64"
| "kind_of (DString _) = KString"
| "kind_of (DList _) = KSlice"
| "kind_of (DMap _) = KMap"

text \<open>
  A Go map holds one value per key: an association list stands for a map only when its
  keys are distinct, at every level of the document.
\<close>

fun wf_doc :: "doc \<Rightarrow> bool" where
  "wf_doc (DMap m) = (distinct (map fst m) \<and> list_all (\<lambda>(k, v). wf_doc v) m)"
| "wf_doc (DList l) = list_all wf_doc l"
| "wf_doc _ = True"

subsection \<open>Library functions the comparator calls\<close>

text \<open>\<open>%d\<close> of a non-negative number.\<close>

fun string_of_nat :: "nat \<Rightarrow> string" where
  "string_of_nat n =
     (if n < 10 then [''0123456789'' ! n]
      else string_of_nat (n div 10) @ [''0123456789'' ! (n mod 10)])"

declare string_of_nat.simps [simp del]

text \<open>\<open>%d\<close> of a signed number, and \<open>strconv.Itoa\<close> on a 64-bit \<open>int\<close>.\<close>

definition string_of_int :: "int \<Rightarrow> string" where
  "string_of_int i =
     (if i < 0 then CHR ''-'' # string_of_nat (nat (- i)) else string_of_nat (nat i))"

definition Itoa :: "64 word \<Rightarrow> string" where
  "Itoa i = string_of_int (sint i)"

text \<open>\<open>strings.Contains\<close>: \<open>substr\<close> occurs in \<open>s\<close> at some offset.\<close>

definition Contains :: "string \<Rightarrow> string \<Rightarrow> bool" where
  "Contains s substr =
     list_ex (\<lambda>i. take (length substr) (drop i s) = substr) [0..<Suc (length s)]"

text \<open>
  \<open>strconv.Atoi\<close>: an optional sign, then at least one decimal digit and nothing else;
  a value outside the 64-bit \<open>int\<close> range is an error too. \<open>None\<close> is the error.
\<close>

definition is_digit :: "char \<Rightarrow> bool" where
  "is_digit c = (48 \<le> (of_char c :: nat) \<and> (of_char c :: nat) \<le> 57)"

definition digits_value :: "string \<Rightarrow> nat" where
  "digits_value s = foldl (\<lambda>n ch. n * 10 + (of_char ch - 48)) 0 s"

definition Atoi :: "string \<Rightarrow> int option" where
  "Atoi s =
     (let signed = (s \<noteq> [] \<and> (hd s = CHR ''-'' \<or> hd s = CHR ''+''));
          body = (if signed then tl s else s);
          n = (if s \<noteq> [] \<and> hd s = CHR ''-'' then - int (digits_value body)
               else int (digits_value body))
      in if body = [] \<or> \<not> list_all is_digit body then None
         else if - (2 ^ 63) \<le> n \<and> n < 2 ^ 63 then Some n
         else None)"

text \<open>Go's \<open>==\<close> on \<open>float64\<close>: a NaN equals nothing, the two zeros are equal.\<close>

definition float64_isNaN :: "64 word \<Rightarrow> bool" where
  "float64_isNaN w =
     (w AND 0x7FF0000000000000 = 0x7FF0000000000000 \<and> w AND 0x000FFFFFFFFFFFFF \<noteq> 0)"

definition float64_eq :: "64 word \<Rightarrow> 64 word \<Rightarrow> bool" where
  "float64_eq a b =
     (\<not> float64_isNaN a \<and> \<not> float64_isNaN b \<and>
      (a = b \<or> (a AND 0x7FFFFFFFFFFFFFFF = 0 \<and> b AND 0x7FFFFFFFFFFFFFFF = 0)))"

text \<open>A document in which no \<open>float64\<close> is a NaN.\<close>

fun NaN_free :: "doc \<Rightarrow> bool" where
  "NaN_free (DFloat64 w) = (\<not> float64_isNaN w)"
| "NaN_free (DList l) = list_all NaN_free l"
| "NaN_free (DMap m) = list_all (\<lambda>(k, v). NaN_free v) m"
| "NaN_free _ = True"

text \<open>
  \<open>reflect.DeepEqual\<close>: values of different types are never deeply equal; maps are
  equal when they have the same keys with deeply equal values, slices when they have the
  same length and deeply equal elements, floats when \<open>==\<close> holds.
\<close>

lemma size_in_map: "(k, v) \<in> set m \<Longrightarrow> size v < size (DMap m)"
  by (induction m) auto

lemma size_in_list: "v \<in> set l \<Longrightarrow> size v < size (DList l)"
  by (induction l) auto

lemma size_in_enumerate: "(x, v) \<in> set (enumerate n l) \<Longrightarrow> size v < size (DList l)"
  using size_in_list [of v l] by (auto simp: in_set_enumerate_eq)

function DeepEqual :: "doc \<Rightarrow> doc \<Rightarrow> bool" where
  "DeepEqual a b =
     (case (a, b) of
        (DMap x, DMap y) \<Rightarrow>
          length x = length y \<and>
          list_all (\<lambda>(k, v). case map_of y k of None \<Rightarrow> False | Some w \<Rightarrow> DeepEqual v w) x
      | (DList x, DList y) \<Rightarrow>
          length x = length y \<and> list_all (\<lambda>(v, w). DeepEqual v w) (zip x y)
      | (DFloat64 x, DFloat64 y) \<Rightarrow> float64_eq x y
      | _ \<Rightarrow> a = b)"
  by pat_completeness auto

termination
proof (relation "measure (\<lambda>(a, b). size a)")
  show "wf (measure (\<lambda>(a, b). size a))" by simp
qed (auto dest!: size_in_map set_zip_leftD size_in_list)

declare DeepEqual.simps [simp del]

section \<open>Structural comparator\<close>

text \<open>
  \<open>typesComparable\<close>: a switch on the kind of the first value. \<open>Int16\<close> and \<open>Uint16\<close>
  are in none of its cases, so they reach the last line, the comparison of the two
  \<open>reflect.TypeOf\<close>. Every document constructor is one Go type, so equal types are equal
  kinds.
\<close>

definition typesComparable :: "doc \<Rightarrow> doc \<Rightarrow> bool" where
  "typesComparable a b =
     (let at = kind_of a; bt = kind_of b
      in if at \<in> {KInt, KInt8, KInt32, KInt64} then
           bt \<in> {KInt, KInt8, KInt32, KInt64, KString}
         else if at \<in> {KUint, KUint8, KUint32, KUint64} then
           bt \<in> {KUint, KUint8, KUint32, KUint64, KString}
         else if at \<in> {KComplex64, KComplex128} then
           bt \<in> {KComplex64, KComplex128, KString}
         else if at = KString then
           bt \<in> {KInt, KInt8, KInt32, KInt64, KUint, KUint8, KUint32, KUint64,
                  KComplex64, KComplex128, KString}
         else at = bt)"

fun toUint64 :: "doc \<Rightarrow> 64 word" where
  "toUint64 (DUint64 v) = v"
| "toUint64 (DUint8 v) = ucast v"
| "toUint64 (DUint16 v) = ucast v"
| "toUint64 (DUint32 v) = ucast v"
| "toUint64 (DUint v) = v"
| "toUint64 _ = 0"

fun toInt64 :: "doc \<Rightarrow> 64 word" where
  "toInt64 (DInt64 v) = v"
| "toInt64 (DInt8 v) = scast v"
| "toInt64 (DInt16 v) = scast v"
| "toInt64 (DInt32 v) = scast v"
| "toInt64 (DInt v) = v"
| "toInt64 _ = 0"

text \<open>A failed type assertion without the comma-ok form, and every other \<open>panic\<close>.\<close>

datatype panic = Panic string

text \<open>The name Go prints for the dynamic type of a value (\<open>%T\<close>; \<open>nil\<close> for the nil interface).\<close>

fun type_name :: "kind \<Rightarrow> string" where
  "type_name KInvalid = ''nil''"
| "type_name KBool = ''bool''"
| "type_name KInt = ''int''"
| "type_name KInt8 = ''int8''"
| "type_name KInt16 = ''int16''"
| "type_name KInt32 = ''int32''"
| "type_name KInt64 = ''int64''"
| "type_name KUint = ''uint''"
| "type_name KUint8 = ''uint8''"
| "type_name KUint16 = ''uint16''"
| "type_name KUint32 = ''uint32''"
| "type_name KUint64 = ''uint64''"
| "type_name KFloat64 = ''float64''"
| "type_name KComplex64 = ''complex64''"
| "type_name KComplex128 = ''complex128''"
| "type_name KString = ''string''"
| "type_name KSlice = ''[]interface {}''"
| "type_name KMap = ''map[string]interface {}''"

text \<open>
  The panic of a type assertion \<open>v.(T)\<close> on a value of another type:
  \<open>interface conversion: interface {} is int64, not int\<close>.
\<close>

definition conversion_panic :: "doc \<Rightarrow> string \<Rightarrow> panic" where
  "conversion_panic v wanted =
     Panic (''interface conversion: interface {} is '' @ type_name (kind_of v) @
            '', not '' @ wanted)"

text \<open>
  The four messages \<open>collectFieldDifferences\<close> formats, each with the values it prints:
  \<open>"%s non-comparable types: %T and %T."\<close>, \<open>"%s not present in subject"\<close>,
  \<open>"%s had different lengths. expected %d but found %d"\<close> and
  \<open>"%s had different values. expected %v but found %v"\<close>.
\<close>

datatype difference =
    NonComparableTypes string kind kind
  | NotPresent string
  | DifferentLengths string nat nat
  | DifferentValues string doc doc

definition is_int_kind :: "kind \<Rightarrow> bool" where
  "is_int_kind k = (k \<in> {KInt, KInt8, KInt16, KInt32, KInt64})"

definition is_uint_kind :: "kind \<Rightarrow> bool" where
  "is_uint_kind k = (k \<in> {KUint, KUint8, KUint16, KUint32, KUint64})"

text \<open>
  The part of \<open>collectFieldDifferences\<close> after the map and slice cases of its type switch:
  the case of the five signed integer types, the case \<open>string\<close>, and the
  \<open>reflect.DeepEqual\<close> that every other type of \<open>match\<close> falls through to. In the
  \<open>string\<close> case \<open>subject.(int)\<close> panics on an integer that is not an \<open>int\<close>.
\<close>

definition collectScalarDifferences ::
  "string \<Rightarrow> doc \<Rightarrow> doc \<Rightarrow> difference list \<Rightarrow> panic + difference list" where
  "collectScalarDifferences fp match subject delta =
     (if is_int_kind (kind_of match) then
        (if is_int_kind (kind_of subject) then
           (if toInt64 match \<noteq> toInt64 subject
            then Inr (delta @ [DifferentValues fp match subject]) else Inr delta)
         else if is_uint_kind (kind_of subject) then
           (if toUint64 match \<noteq> toUint64 subject
            then Inr (delta @ [DifferentValues fp match subject]) else Inr delta)
         else (case subject of
             DString ss \<Rightarrow>
               (case Atoi ss of
                  None \<Rightarrow> Inr (delta @ [DifferentValues fp match subject])
                | Some sv \<Rightarrow>
                    if toInt64 match \<noteq> word_of_int sv
                    then Inr (delta @ [DifferentValues fp match subject]) else Inr delta)
           | _ \<Rightarrow> Inr delta))
      else (case match of
          DString mv \<Rightarrow>
            (if is_int_kind (kind_of subject) \<or> is_uint_kind (kind_of subject) then
               (case subject of
                  DInt si \<Rightarrow>
                    if mv \<noteq> Itoa si
                    then Inr (delta @ [DifferentValues fp match subject]) else Inr delta
                | _ \<Rightarrow> Inl (conversion_panic subject ''int''))
             else (case subject of
                 DString sv \<Rightarrow>
                   if mv \<noteq> sv
                   then Inr (delta @ [DifferentValues fp match subject]) else Inr delta
               | _ \<Rightarrow> Inr delta))
        | _ \<Rightarrow>
            if \<not> DeepEqual match subject
            then Inr (delta @ [DifferentValues fp match subject]) else Inr delta))"

text \<open>
  \<open>collectFieldDifferences\<close> appends to the delta it is given and returns it. The two
  \<open>range\<close> loops are folds that stop changing the delta once a panic has happened. Go
  ranges over a map in no fixed order; the fold takes the entries in the order of the
  association list.
\<close>

function (sequential) collectFieldDifferences ::
  "string \<Rightarrow> doc \<Rightarrow> doc \<Rightarrow> difference list \<Rightarrow> panic + difference list" where
  "collectFieldDifferences fp (DMap matchmap) subject delta =
     (if \<not> typesComparable (DMap matchmap) subject then
        Inr (delta @ [NonComparableTypes fp KMap (kind_of subject)])
      else (case subject of
          DMap subjectmap \<Rightarrow>
            fold (\<lambda>(matchk, matchv) acc.
                    case acc of
                      Inl p \<Rightarrow> Inl p
                    | Inr d \<Rightarrow>
                        (case map_of subjectmap matchk of
                           None \<Rightarrow> Inr (d @ [NotPresent (fp @ ''.'' @ matchk)])
                         | Some subjectv \<Rightarrow>
                             collectFieldDifferences (fp @ ''.'' @ matchk) matchv subjectv d))
                 matchmap (Inr delta)
        | _ \<Rightarrow> Inl (conversion_panic subject ''map[string]interface {}'')))"
| "collectFieldDifferences fp (DList matchlist) subject delta =
     (if \<not> typesComparable (DList matchlist) subject then
        Inr (delta @ [NonComparableTypes fp KSlice (kind_of subject)])
      else (case subject of
          DList subjectlist \<Rightarrow>
            if length matchlist \<noteq> length subjectlist then
              Inr (delta @ [DifferentLengths fp (length matchlist) (length subjectlist)])
            else
              fold (\<lambda>(x, matchv) acc.
                      case acc of
                        Inl p \<Rightarrow> Inl p
                      | Inr d \<Rightarrow>
                          collectFieldDifferences (fp @ ''['' @ string_of_nat x @ '']'')
                            matchv (subjectlist ! x) d)
                   (enumerate 0 matchlist) (Inr delta)
        | _ \<Rightarrow> Inl (conversion_panic subject ''[]interface {}'')))"
| "collectFieldDifferences fp match subject delta =
     (if \<not> typesComparable match subject then
        Inr (delta @ [NonComparableTypes fp (kind_of match) (kind_of subject)])
      else collectScalarDifferences fp match subject delta)"
  by pat_completeness auto
termination
proof (relation "measure (\<lambda>(fp, m, s, d). size m)")
  show "wf (measure (\<lambda>(fp, m, s, d). size m))" by simp
qed (auto dest!: size_in_map size_in_enumerate)

text \<open>
  \<open>compareResourceToMatchObject\<close>: the differences between the resource's \<open>Object\<close> and
  the match object, from the root path.
\<close>

definition compareResourceToMatchObject ::
  "(string \<times> doc) list \<Rightarrow> (string \<times> doc) list \<Rightarrow> panic + difference list" where
  "compareResourceToMatchObject res match =
     collectFieldDifferences ''$'' (DMap match) (DMap res) []"

section \<open>Assertions\<close>

text \<open>
  The error of an action, by the three shapes \<open>errorOK\<close> tells apart: an error that
  \<open>errors.Is\<close> finds to be \<open>ErrResourceUnknown\<close>, a \<open>*apierrors.StatusError\<close> with its
  \<open>ErrStatus.Code\<close> (an \<open>int32\<close>), and any other error. Each carries the text that its
  \<open>Error()\<close> method returns.
\<close>

datatype action_error =
    ResourceUnknown string
  | StatusError "32 word" string
  | OtherError string

fun Error_text :: "action_error \<Rightarrow> string" where
  "Error_text (ResourceUnknown m) = m"
| "Error_text (StatusError c m) = m"
| "Error_text (OtherError m) = m"

fun is_ResourceUnknown :: "action_error \<Rightarrow> bool" where
  "is_ResourceUnknown (ResourceUnknown m) = True"
| "is_ResourceUnknown _ = False"

text \<open>
  \<open>Expect\<close>. \<open>Len\<close> is a pointer to an \<open>int\<close>, \<open>Matches\<close> an \<open>interface{}\<close> (\<open>DNil\<close> when
  it is \<open>nil\<close>), \<open>JSON\<close> a pointer to the descriptor of the payload assertions, whose
  type \<open>'j\<close> belongs to the engine that evaluates it.
\<close>

record 'j Expect =
  Error :: string
  Len :: "int option"
  NotFound :: bool
  Unknown :: bool
  Matches :: doc
  JSON :: "'j option"

text \<open>
  The response \<open>r\<close> of the client call: the \<open>nil\<close> interface, a pointer to an
  \<open>unstructured.Unstructured\<close> (its \<open>Object\<close>) or a pointer to an
  \<open>unstructured.UnstructuredList\<close> (the \<open>Object\<close> of each of its \<open>Items\<close>). \<open>None\<close> is
  the \<open>nil\<close> pointer of that type, which is not the \<open>nil\<close> interface.
\<close>

datatype response =
    NilResponse
  | Unstructured "(string \<times> doc) list option"
  | UnstructuredList "(string \<times> doc) list list option"

text \<open>The errors that \<open>Fail\<close> receives, by the constructor that made them.\<close>

datatype failure =
    UnexpectedError "action_error option"
  | ActionError action_error
  | ExpectedNotFound string
  | NotIn string string
  | NotEqualLength int int
  | MatchesNotEqual difference
  | JSONFailure string

record 'j assertions =
  failures :: "failure list"
  terminal :: bool
  exp :: "'j Expect option"
  err :: "action_error option"
  r_subject :: response

text \<open>
  What the evaluator calls outside this package: the file-path test and the file read,
  the YAML and JSON codecs (\<open>None\<close> is their error), and the payload assertion engine,
  which returns what its \<open>OK\<close>, \<open>Terminal\<close> and \<open>Failures\<close> methods give.
\<close>

record 'j env =
  probablyFilePath :: "string \<Rightarrow> bool"
  ReadFile :: "string \<Rightarrow> string option"
  yaml_Unmarshal :: "string \<Rightarrow> (string \<times> doc) list option"
  json_Marshal :: "(string \<times> doc) list \<Rightarrow> string option"
  gdtjson :: "'j \<Rightarrow> string \<Rightarrow> bool \<times> bool \<times> string list"

definition Fail :: "'j assertions \<Rightarrow> failure \<Rightarrow> 'j assertions" where
  "Fail a e = a\<lparr>failures := failures a @ [e]\<rparr>"

definition Failures :: "'j assertions \<Rightarrow> failure list" where
  "Failures a = failures a"

definition Terminal :: "'j assertions \<Rightarrow> bool" where
  "Terminal a = terminal a"

definition newAssertions ::
  "'j Expect option \<Rightarrow> action_error option \<Rightarrow> response \<Rightarrow> 'j assertions" where
  "newAssertions e er rs =
     \<lparr>failures = [], terminal = False, exp = e, err = er, r_subject = rs\<rparr>"

definition expectsNotFound :: "'j Expect \<Rightarrow> bool" where
  "expectsNotFound ex = (Len ex = Some 0 \<or> NotFound ex)"

text \<open>
  The first half of \<open>errorOK\<close>, under \<open>if a.err != nil\<close>: the errors that were expected
  are swallowed. \<open>Inl\<close> is a \<open>return false\<close> from inside it.
\<close>

definition swallowExpected :: "'j Expect \<Rightarrow> 'j assertions \<Rightarrow> 'j assertions + 'j assertions" where
  "swallowExpected ex a =
     (case err a of
        None \<Rightarrow> Inr a
      | Some e \<Rightarrow>
          if is_ResourceUnknown e \<and> \<not> Unknown ex then
            Inl ((Fail a (ActionError e))\<lparr>terminal := True\<rparr>)
          else
            (let a1 = (if is_ResourceUnknown e then a\<lparr>err := None\<rparr> else a)
             in case err a1 of
                  Some (StatusError code m) \<Rightarrow>
                    if \<not> expectsNotFound ex \<and> 404 \<noteq> sint code then
                      Inl (Fail a1 (ExpectedNotFound (''got status code '' @ string_of_int (sint code))))
                    else Inr (a1\<lparr>err := None\<rparr>)
                | _ \<Rightarrow> Inr a1))"

text \<open>
  \<open>errorOK\<close>. After the swallowing, the block under
  \<open>if exp.Error != "" && a.r != nil\<close> either returns (\<open>Some\<close>) or falls through
  (\<open>None\<close>) to the last test, \<open>if a.err != nil\<close>.
\<close>

definition errorOK :: "'j Expect \<Rightarrow> 'j assertions \<Rightarrow> bool \<times> 'j assertions" where
  "errorOK ex a =
     (case swallowExpected ex a of
        Inl a1 \<Rightarrow> (False, a1)
      | Inr a1 \<Rightarrow>
          (case (if Error ex \<noteq> [] \<and> r_subject a1 \<noteq> NilResponse then
                   (case err a1 of
                      None \<Rightarrow> Some (False, (Fail a1 (UnexpectedError (err a1)))\<lparr>terminal := True\<rparr>)
                    | Some e \<Rightarrow>
                        if \<not> Contains (Error_text e) (Error ex)
                        then Some (False, Fail a1 (NotIn (Error_text e) (Error ex)))
                        else None)
                 else None) of
             Some returned \<Rightarrow> returned
           | None \<Rightarrow>
               if err a1 \<noteq> None
               then (False, (Fail a1 (UnexpectedError (err a1)))\<lparr>terminal := True\<rparr>)
               else (True, a1)))"

definition lenOK :: "'j Expect \<Rightarrow> 'j assertions \<Rightarrow> bool \<times> 'j assertions" where
  "lenOK ex a =
     (case Len ex of
        None \<Rightarrow> (True, a)
      | Some n \<Rightarrow>
          (case r_subject a of
             UnstructuredList (Some items) \<Rightarrow>
               if int (length items) \<noteq> n
               then (False, Fail a (NotEqualLength n (int (length items))))
               else (True, a)
           | _ \<Rightarrow> (True, a)))"

definition hasSubject :: "'j assertions \<Rightarrow> bool" where
  "hasSubject a =
     (case r_subject a of
        Unstructured v \<Rightarrow> v \<noteq> None
      | UnstructuredList v \<Rightarrow> v \<noteq> None
      | NilResponse \<Rightarrow> False)"

definition matchObjectFromAny :: "'j env \<Rightarrow> doc \<Rightarrow> panic + (string \<times> doc) list" where
  "matchObjectFromAny en m =
     (case m of
        DString v \<Rightarrow>
          (case (if probablyFilePath en v then ReadFile en v else Some v) of
             None \<Rightarrow> Inl (Panic ''ReadFile'')
           | Some b \<Rightarrow>
               (case yaml_Unmarshal en b of
                  None \<Rightarrow> Inl (Panic ''yaml.Unmarshal'')
                | Some obj \<Rightarrow> Inr obj))
      | DMap mm \<Rightarrow> Inr mm
      | _ \<Rightarrow> Inr [])"

definition matchesOK ::
  "'j env \<Rightarrow> 'j Expect \<Rightarrow> 'j assertions \<Rightarrow> panic + bool \<times> 'j assertions" where
  "matchesOK en ex a =
     (if Matches ex \<noteq> DNil \<and> hasSubject a then
        (case matchObjectFromAny en (Matches ex) of
           Inl p \<Rightarrow> Inl p
         | Inr matchObj \<Rightarrow>
             (case r_subject a of
                Unstructured (Some res) \<Rightarrow>
                  (case compareResourceToMatchObject res matchObj of
                     Inl p \<Rightarrow> Inl p
                   | Inr delta \<Rightarrow>
                       if delta \<noteq> []
                       then Inr (False, a\<lparr>failures := failures a @ map MatchesNotEqual delta\<rparr>)
                       else Inr (True, a))
              | _ \<Rightarrow> Inr (True, a)))
      else Inr (True, a))"

definition jsonOK ::
  "'j env \<Rightarrow> 'j Expect \<Rightarrow> 'j assertions \<Rightarrow> panic + bool \<times> 'j assertions" where
  "jsonOK en ex a =
     (case JSON ex of
        None \<Rightarrow> Inr (True, a)
      | Some j \<Rightarrow>
          if \<not> hasSubject a then Inr (True, a)
          else
            (case (case r_subject a of
                     Unstructured (Some res) \<Rightarrow>
                       (case json_Marshal en res of
                          None \<Rightarrow> Inl (Panic ''unable to marshal unstructured.Unstructured'')
                        | Some b \<Rightarrow> Inr b)
                   | _ \<Rightarrow> Inr []) of
               Inl p \<Rightarrow> Inl p
             | Inr b \<Rightarrow>
                 (case gdtjson en j b of
                    (ja_ok, ja_terminal, ja_failures) \<Rightarrow>
                      if \<not> ja_ok then
                        Inr (False, a\<lparr>terminal := ja_terminal,
                                      failures := failures a @ map JSONFailure ja_failures\<rparr>)
                      else Inr (True, a))))"

definition OK :: "'j env \<Rightarrow> 'j assertions \<Rightarrow> panic + bool \<times> 'j assertions" where
  "OK en a =
     (case exp a of
        None \<Rightarrow>
          if err a \<noteq> None
          then Inr (False, (Fail a (UnexpectedError (err a)))\<lparr>terminal := True\<rparr>)
          else Inr (True, a)
      | Some ex \<Rightarrow>
          (case errorOK ex a of
             (False, a1) \<Rightarrow> Inr (False, a1)
           | (True, a1) \<Rightarrow>
               (case lenOK ex a1 of
                  (False, a2) \<Rightarrow> Inr (False, a2)
                | (True, a2) \<Rightarrow>
                    (case matchesOK en ex a2 of
                       Inl p \<Rightarrow> Inl p
                     | Inr (False, a3) \<Rightarrow> Inr (False, a3)
                     | Inr (True, a3) \<Rightarrow>
                         (case jsonOK en ex a3 of
                            Inl p \<Rightarrow> Inl p
                          | Inr (False, a4) \<Rightarrow> Inr (False, a4)
                          | Inr (True, a4) \<Rightarrow> Inr (True, a4))))))"

text \<open>
  The states of the assertions while \<open>OK\<close> runs with an expectation attached: the state
  it starts from, then the state after each check that ran, in order. A check that
  returns false is the last one to run.
\<close>

definition OK_states :: "'j env \<Rightarrow> 'j Expect \<Rightarrow> 'j assertions \<Rightarrow> panic + 'j assertions list" where
  "OK_states en ex a =
     (case errorOK ex a of
        (False, a1) \<Rightarrow> Inr [a, a1]
      | (True, a1) \<Rightarrow>
          (case lenOK ex a1 of
             (False, a2) \<Rightarrow> Inr [a, a1, a2]
           | (True, a2) \<Rightarrow>
               (case matchesOK en ex a2 of
                  Inl p \<Rightarrow> Inl p
                | Inr (False, a3) \<Rightarrow> Inr [a, a1, a2, a3]
                | Inr (True, a3) \<Rightarrow>
                    (case jsonOK en ex a3 of
                       Inl p \<Rightarrow> Inl p
                     | Inr (ok, a4) \<Rightarrow> Inr [a, a1, a2, a3, a4]))))"

section \<open>Poll controller\<close>



text \<open>
  One evaluation as its callers see it: \<open>newAssertions\<close>, then \<open>OK\<close>, then \<open>Terminal\<close>
  and \<open>Failures\<close> of the same object (as \<open>doGet\<close> and the loop of \<open>runGet\<close> do).
\<close>

definition evaluate ::
  "'j env \<Rightarrow> 'j Expect option \<Rightarrow> action_error option \<Rightarrow> response \<Rightarrow>
   panic + bool \<times> bool \<times> failure list" where
  "evaluate en e er rs =
     (case OK en (newAssertions e er rs) of
        Inl p \<Rightarrow> Inl p
      | Inr (ok, a) \<Rightarrow> Inr (ok, Terminal a, Failures a))"


subsection \<open>Concrete inputs\<close>

text \<open>
  An environment whose payload engine rejects every payload without a terminal
  failure, and an expectation that declares nothing.
\<close>

definition example_env :: "unit env" where
  "example_env =
     \<lparr>probablyFilePath = (\<lambda>s. False), ReadFile = (\<lambda>s. None),
      yaml_Unmarshal = (\<lambda>s. Some []), json_Marshal = (\<lambda>m. Some []),
      gdtjson = (\<lambda>j b. (False, False, [''payload mismatch'']))\<rparr>"

definition example_expect :: "unit Expect" where
  "example_expect =
     \<lparr>Error = [], Len = None, NotFound = False, Unknown = False, Matches = DNil, JSON = None\<rparr>"

text \<open>An environment whose payload engine fails terminally, and an expectation of one item.\<close>

definition example_env_terminal :: "unit env" where
  "example_env_terminal = example_env\<lparr>gdtjson := (\<lambda>j b. (False, True, [''bad schema'']))\<rparr>"


section \<open>Properties of the comparator\<close>

lemma typesComparable_refl: "typesComparable x x"
  by (cases x) (simp_all add: typesComparable_def)

lemma DeepEqual_Float: "DeepEqual (DFloat64 x) (DFloat64 y) = float64_eq x y"
  by (subst DeepEqual.simps) simp

lemma fold_keeps:
  assumes "\<And>x. x \<in> set xs \<Longrightarrow> f x (Inr d) = Inr d"
  shows "fold f xs (Inr d) = Inr d"
  using assms by (induction xs) simp_all

lemma DeepEqual_refl_scalar:
  assumes "NaN_free x" "\<forall>m. x \<noteq> DMap m" "\<forall>l. x \<noteq> DList l"
  shows "DeepEqual x x"
  using assms by (subst DeepEqual.simps) (cases x; simp add: float64_eq_def)

lemma collectScalar_refl:
  assumes "NaN_free x" "\<forall>m. x \<noteq> DMap m" "\<forall>l. x \<noteq> DList l"
  shows "collectScalarDifferences fp x x delta = Inr delta"
  using DeepEqual_refl_scalar [OF assms]
  by (cases x) (simp_all add: collectScalarDifferences_def is_int_kind_def is_uint_kind_def)

text \<open>
  A document compared with itself adds nothing to the delta: by induction on the
  document, each step of the two loops leaving the delta as it was.
\<close>

lemma collect_refl:
  "wf_doc x \<Longrightarrow> NaN_free x \<Longrightarrow> collectFieldDifferences fp x x delta = Inr delta"
proof (induction x arbitrary: fp delta)
  case (DMap m)
  have step: "\<And>k v. (k, v) \<in> set m \<Longrightarrow>
      map_of m k = Some v \<and> (\<forall>fp. collectFieldDifferences fp v v delta = Inr delta)"
  proof -
    fix k v assume kv: "(k, v) \<in> set m"
    with DMap.prems have "map_of m k = Some v" "wf_doc v" "NaN_free v"
      by (auto simp: list_all_iff)
    with DMap.IH [of "(k, v)" v] kv show
      "map_of m k = Some v \<and> (\<forall>fp. collectFieldDifferences fp v v delta = Inr delta)"
      by simp
  qed
  show ?case
    apply (simp add: typesComparable_refl)
    apply (rule fold_keeps)
    apply (auto simp: step)
    done
next
  case (DList l)
  have step: "\<And>i. i < length l \<Longrightarrow> (\<forall>fp. collectFieldDifferences fp (l ! i) (l ! i) delta = Inr delta)"
  proof -
    fix i assume "i < length l"
    then have mem: "l ! i \<in> set l" by simp
    with DList.prems have "wf_doc (l ! i)" "NaN_free (l ! i)"
      by (auto simp: list_all_iff)
    with DList.IH [OF mem] show "\<forall>fp. collectFieldDifferences fp (l ! i) (l ! i) delta = Inr delta"
      by simp
  qed
  show ?case
    apply (simp add: typesComparable_refl)
    apply (rule fold_keeps)
    apply (auto simp: in_set_enumerate_eq step)
    done
qed (simp_all add: typesComparable_refl collectScalar_refl)

lemma sint64_word_of_int:
  assumes "- (2 ^ 63) \<le> n" "n < 2 ^ 63"
  shows "(w = (word_of_int n :: 64 word)) = (sint w = n)"
proof
  assume "w = word_of_int n"
  with assms show "sint w = n"
    by (simp add: sint_sbintrunc' signed_take_bit_int_eq_self)
next
  assume "sint w = n"
  then have "word_of_int (sint w) = (word_of_int n :: 64 word)" by simp
  then show "w = word_of_int n" by simp
qed

lemma Atoi_range: "Atoi s = Some n \<Longrightarrow> - (2 ^ 63) \<le> n \<and> n < 2 ^ 63"
  by (auto simp: Atoi_def Let_def split: if_splits)

lemma nan_not_equal: "\<not> float64_eq 0x7FF8000000000000 0x7FF8000000000000"
  by (simp add: float64_eq_def float64_isNaN_def)

text \<open>Widening to \<open>int64\<close> keeps the value of the integer.\<close>

lemma toInt64_widens:
  "sint (toInt64 (DInt v)) = sint v" "sint (toInt64 (DInt8 v8)) = sint v8"
  "sint (toInt64 (DInt32 v32)) = sint v32" "sint (toInt64 (DInt64 v64)) = sint v64"
  by (simp_all add: sint_up_scast is_up)

lemma scalar_int_string:
  assumes "kind_of m \<in> {KInt, KInt8, KInt32, KInt64}"
  shows "collectScalarDifferences fp m (DString s) delta =
     Inr (if Atoi s = Some (sint (toInt64 m)) then delta
          else delta @ [DifferentValues fp m (DString s)])"
proof (cases "Atoi s")
  case None
  with assms show ?thesis
    by (auto simp: collectScalarDifferences_def is_int_kind_def is_uint_kind_def)
next
  case (Some n)
  from Atoi_range [OF Some] have "(toInt64 m = word_of_int n) = (sint (toInt64 m) = n)"
    by (intro sint64_word_of_int) simp_all
  with Some assms show ?thesis
    by (auto simp: collectScalarDifferences_def is_int_kind_def is_uint_kind_def)
qed

section \<open>Properties of the evaluator\<close>

lemmas eval_defs = evaluate_def OK_def newAssertions_def Fail_def Terminal_def Failures_def
  errorOK_def swallowExpected_def lenOK_def matchesOK_def jsonOK_def hasSubject_def
  expectsNotFound_def

lemma sint_eq_404: "(sint (c :: 32 word) = 404) = (c = 404)"
proof
  assume "sint c = 404"
  then have "(word_of_int (sint c) :: 32 word) = word_of_int 404" by simp
  then show "c = 404" by simp
next
  assume "c = 404"
  then show "sint c = 404" by simp
qed

lemma swallowExpected_Inr:
  "swallowExpected ex a = Inr a1 \<Longrightarrow> a1 = a \<or> a1 = a\<lparr>err := None\<rparr>"
  by (auto simp: swallowExpected_def Let_def split: option.splits if_splits action_error.splits)

lemma errorOK_True:
  "errorOK ex a = (True, a1) \<Longrightarrow> err a1 = None \<and> (a1 = a \<or> a1 = a\<lparr>err := None\<rparr>)"
  unfolding errorOK_def
  by (auto split: sum.splits option.splits if_splits dest: swallowExpected_Inr)

lemma lenOK_True: "lenOK ex a = (True, a1) \<Longrightarrow> a1 = a"
  by (auto simp: lenOK_def split: option.splits response.splits if_splits)

lemma matchesOK_True: "matchesOK en ex a = Inr (True, a1) \<Longrightarrow> a1 = a"
  by (auto simp: matchesOK_def split: option.splits response.splits if_splits sum.splits)

lemma jsonOK_True: "jsonOK en ex a = Inr (True, a1) \<Longrightarrow> a1 = a"
  by (auto simp: jsonOK_def split: option.splits response.splits if_splits sum.splits prod.splits)

text \<open>When \<open>OK\<close> returns true, each of the four checks returned true.\<close>

lemma OK_Some_True:
  assumes "exp a = Some ex" "OK en a = Inr (True, a1)"
  shows "errorOK ex a = (True, a1) \<and> lenOK ex a1 = (True, a1) \<and>
         matchesOK en ex a1 = Inr (True, a1) \<and> jsonOK en ex a1 = Inr (True, a1)"
proof -
  obtain b1 x1 where e: "errorOK ex a = (b1, x1)" by (cases "errorOK ex a")
  obtain b2 x2 where l: "lenOK ex x1 = (b2, x2)" by (cases "lenOK ex x1")
  from assms e have b1: "b1" by (auto simp: OK_def split: bool.splits)
  from assms e l b1 have b2: "b2" by (auto simp: OK_def split: bool.splits)
  from l b2 have x2: "x2 = x1" by (auto dest: lenOK_True)
  from assms e l b1 b2 x2 obtain b3 x3 where m: "matchesOK en ex x1 = Inr (b3, x3)"
    by (cases "matchesOK en ex x1") (auto simp: OK_def)
  from assms e l b1 b2 x2 m have b3: "b3" by (auto simp: OK_def split: bool.splits)
  from m b3 have x3: "x3 = x1" by (auto dest: matchesOK_True)
  from assms e l b1 b2 x2 m b3 x3 obtain b4 x4 where j: "jsonOK en ex x1 = Inr (b4, x4)"
    by (cases "jsonOK en ex x1") (auto simp: OK_def)
  from assms e l b1 b2 x2 m b3 x3 j have b4: "b4" and a1: "a1 = x4"
    by (auto simp: OK_def split: bool.splits)
  from j b4 have "x4 = x1" by (auto dest: jsonOK_True)
  with e l m j b1 b2 b3 b4 x2 x3 a1 show ?thesis by simp
qed

text \<open>A passing \<open>OK\<close> has recorded no failure and has not touched the terminal flag.\<close>

lemma OK_True_unchanged:
  assumes "OK en a = Inr (True, a1)"
  shows "failures a1 = failures a \<and> terminal a1 = terminal a"
proof (cases "exp a")
  case None
  with assms show ?thesis by (auto simp: OK_def split: if_splits)
next
  case (Some ex)
  from OK_Some_True [OF Some assms] have "errorOK ex a = (True, a1)" by simp
  from errorOK_True [OF this] show ?thesis by auto
qed

lemma newAssertions_sel [simp]:
  "failures (newAssertions e er rs) = []"
  "terminal (newAssertions e er rs) = False"
  "exp (newAssertions e er rs) = e"
  "err (newAssertions e er rs) = er"
  "r_subject (newAssertions e er rs) = rs"
  by (simp_all add: newAssertions_def)

lemma swallow_status:
  "expectsNotFound ex \<Longrightarrow>
   swallowExpected ex (newAssertions e (Some (StatusError code m)) rs) =
     Inr (newAssertions e None rs)"
  by (simp add: swallowExpected_def newAssertions_def)

lemma swallow_none:
  "swallowExpected ex (newAssertions e None rs) = Inr (newAssertions e None rs)"
  by (simp add: swallowExpected_def newAssertions_def)

lemma evaluate_pass:
  assumes "evaluate en e er rs = Inr (True, t, fs)"
  shows "t = False \<and> fs = []"
proof -
  from assms obtain a where a: "OK en (newAssertions e er rs) = Inr (True, a)"
    and t: "t = Terminal a" and fs: "fs = Failures a"
    by (auto simp: evaluate_def split: sum.splits)
  from OK_True_unchanged [OF a] t fs show ?thesis
    by (simp add: Terminal_def Failures_def)
qed

lemma lenOK_terminal: "lenOK ex a = (b, a1) \<Longrightarrow> terminal a1 = terminal a"
  by (auto simp: lenOK_def Fail_def split: option.splits response.splits if_splits)

lemma matchesOK_terminal: "matchesOK en ex a = Inr (b, a1) \<Longrightarrow> terminal a1 = terminal a"
  by (auto simp: matchesOK_def split: option.splits response.splits if_splits sum.splits)

lemma OK_Some:
  "exp a = Some ex \<Longrightarrow> OK en a =
     (case errorOK ex a of
             (False, a1) \<Rightarrow> Inr (False, a1)
           | (True, a1) \<Rightarrow>
               (case lenOK ex a1 of
                  (False, a2) \<Rightarrow> Inr (False, a2)
                | (True, a2) \<Rightarrow>
                    (case matchesOK en ex a2 of
                       Inl p \<Rightarrow> Inl p
                     | Inr (False, a3) \<Rightarrow> Inr (False, a3)
                     | Inr (True, a3) \<Rightarrow>
                         (case jsonOK en ex a3 of
                            Inl p \<Rightarrow> Inl p
                          | Inr (False, a4) \<Rightarrow> Inr (False, a4)
                          | Inr (True, a4) \<Rightarrow> Inr (True, a4)))))"
  by (simp add: OK_def)


text \<open>
  C7. With no expectation attached, an evaluation has one of two outcomes: without an
  action error it passes, with no failure and the terminal flag unset; with an action
  error it fails, with the single failure "unexpected error" and the terminal flag set.
\<close>

theorem no_expectation_outcomes:
  "evaluate en None er rs =
     (if er = None then Inr (True, False, [])
      else Inr (False, True, [UnexpectedError er]))"
  by (simp add: evaluate_def OK_def newAssertions_def Fail_def Terminal_def Failures_def)

theorem no_expectation_outcomes_witness:
  "evaluate example_env None None (Unstructured (Some [])) = Inr (True, False, []) \<and>
   evaluate example_env None (Some (OtherError ''boom'')) NilResponse =
     Inr (False, True, [UnexpectedError (Some (OtherError ''boom''))])"
  using no_expectation_outcomes [of example_env None "Unstructured (Some [])"]
    no_expectation_outcomes [of example_env "Some (OtherError ''boom'')" NilResponse]
  by simp

text \<open>
  C1, as stated, fails twice. An expectation that declares only payload assertions
  fails without any action error when the engine rejects the payload; and an
  expectation that declares nothing passes on a status error that carries the code 404.
\<close>

theorem nothing_declared_counterexample:
  "evaluate example_env (Some (example_expect\<lparr>JSON := Some ()\<rparr>)) None (Unstructured (Some []))
     = Inr (False, False, [JSONFailure ''payload mismatch'']) \<and>
   evaluate example_env (Some example_expect) (Some (StatusError 404 ''not found''))
     (Unstructured None) = Inr (True, False, [])"
  by (simp add: eval_defs example_env_def example_expect_def)

text \<open>
  C1, amended. When the expectation declares none of matches, len, error, notfound,
  unknown and payload assertions, and the action error is not a status error with the
  code 404, the evaluation passes if and only if the action error is nil.
\<close>

theorem nothing_declared_pass_iff_no_error:
  assumes "Error ex = []" "Len ex = None" "\<not> NotFound ex" "\<not> Unknown ex"
    "Matches ex = DNil" "JSON ex = None" "\<forall>m. er \<noteq> Some (StatusError 404 m)"
  shows "\<exists>t fs. evaluate en (Some ex) er rs = Inr (er = None, t, fs)"
proof (cases er)
  case None
  with assms show ?thesis by (auto simp add: eval_defs)
next
  case (Some e)
  with assms show ?thesis
    by (cases e) (auto simp add: eval_defs sint_eq_404)
qed

theorem nothing_declared_pass_iff_no_error_witness:
  "\<exists>t fs. evaluate example_env (Some example_expect) (Some (StatusError 500 ''boom'')) NilResponse
     = Inr (False, t, fs)"
  using nothing_declared_pass_iff_no_error
    [of example_expect "Some (StatusError 500 ''boom'')" example_env NilResponse]
  by (simp add: example_expect_def)

text \<open>
  C2. When the action error is a status error and the expectation declares that absence
  is expected (notfound, or a count of 0), \<open>errorOK\<close> clears the error whatever code it
  carries and goes on as it does without an action error: it returns true with the
  error cleared and nothing recorded, unless an error substring is declared and the
  response is not the nil interface, the one case in which it fails, terminally, for
  want of an error. The whole evaluation is the evaluation without an action error. In
  particular a status error with the code 500 under notfound passes, with no failure,
  whenever the same expectation passes without an action error.
\<close>

theorem status_error_swallowed:
  assumes "expectsNotFound ex"
  shows "swallowExpected ex (newAssertions (Some ex) (Some (StatusError code m)) rs) =
           Inr (newAssertions (Some ex) None rs) \<and>
         errorOK ex (newAssertions (Some ex) (Some (StatusError code m)) rs) =
           errorOK ex (newAssertions (Some ex) None rs) \<and>
         errorOK ex (newAssertions (Some ex) (Some (StatusError code m)) rs) =
           (if Error ex \<noteq> [] \<and> rs \<noteq> NilResponse
            then (False, (Fail (newAssertions (Some ex) None rs) (UnexpectedError None))
                           \<lparr>terminal := True\<rparr>)
            else (True, newAssertions (Some ex) None rs)) \<and>
         err (snd (errorOK ex (newAssertions (Some ex) (Some (StatusError code m)) rs))) = None \<and>
         (Error ex \<noteq> [] \<and> rs \<noteq> NilResponse \<longrightarrow>
            evaluate en (Some ex) (Some (StatusError code m)) rs =
              Inr (False, True, [UnexpectedError None])) \<and>
         evaluate en (Some ex) (Some (StatusError code m)) rs = evaluate en (Some ex) None rs \<and>
         (NotFound ex \<and> evaluate en (Some ex) None rs = Inr (True, t, fs) \<longrightarrow>
            evaluate en (Some ex) (Some (StatusError 500 m)) rs = Inr (True, False, []))"
proof -
  let ?a = "newAssertions (Some ex) None rs"
  have sw: "\<And>c. swallowExpected ex (newAssertions (Some ex) (Some (StatusError c m)) rs) = Inr ?a"
    using assms by (rule swallow_status)
  have eo: "\<And>c. errorOK ex (newAssertions (Some ex) (Some (StatusError c m)) rs) = errorOK ex ?a"
    by (simp add: errorOK_def sw swallow_none)
  have ex: "errorOK ex ?a =
           (if Error ex \<noteq> [] \<and> rs \<noteq> NilResponse
            then (False, (Fail ?a (UnexpectedError None))\<lparr>terminal := True\<rparr>)
            else (True, ?a))"
    by (simp add: errorOK_def swallow_none)
  have cl: "err (snd (errorOK ex ?a)) = None"
    by (simp add: ex Fail_def)
  have ev: "\<And>c. evaluate en (Some ex) (Some (StatusError c m)) rs = evaluate en (Some ex) None rs"
    by (simp add: evaluate_def OK_def eo)
  have fl: "Error ex \<noteq> [] \<and> rs \<noteq> NilResponse \<Longrightarrow>
      evaluate en (Some ex) None rs = Inr (False, True, [UnexpectedError None])"
    by (simp add: evaluate_def OK_Some ex Fail_def Terminal_def Failures_def)
  show ?thesis
    using sw eo ex cl ev fl evaluate_pass [of en "Some ex" None rs t fs] by auto
qed

theorem status_error_swallowed_witness:
  "evaluate example_env (Some (example_expect\<lparr>NotFound := True\<rparr>))
     (Some (StatusError 500 ''internal error'')) (Unstructured None) = Inr (True, False, []) \<and>
   errorOK (example_expect\<lparr>NotFound := True\<rparr>)
     (newAssertions (Some (example_expect\<lparr>NotFound := True\<rparr>))
        (Some (StatusError 500 ''internal error'')) (Unstructured None)) =
     (True, newAssertions (Some (example_expect\<lparr>NotFound := True\<rparr>)) None (Unstructured None)) \<and>
   evaluate example_env (Some (example_expect\<lparr>NotFound := True, Error := ''gone''\<rparr>))
     (Some (StatusError 500 ''internal error'')) (Unstructured None) =
     Inr (False, True, [UnexpectedError None])"
proof -
  let ?ex = "example_expect\<lparr>NotFound := True\<rparr>"
  let ?ex2 = "example_expect\<lparr>NotFound := True, Error := ''gone''\<rparr>"
  have h: "expectsNotFound ?ex" and h2: "expectsNotFound ?ex2"
    by (simp_all add: expectsNotFound_def)
  have p: "evaluate example_env (Some ?ex) None (Unstructured None) = Inr (True, False, [])"
    by (simp add: eval_defs example_expect_def)
  have e: "Error ?ex = []" and e2: "Error ?ex2 \<noteq> []"
    by (simp_all add: example_expect_def)
  have n: "NotFound ?ex" and r: "Unstructured None \<noteq> NilResponse"
    by simp_all
  note A = status_error_swallowed [OF h, of 500 "''internal error''" "Unstructured None"
      example_env False "[]"]
  note B = status_error_swallowed [OF h2, of 500 "''internal error''" "Unstructured None"
      example_env False "[]"]
  from A n p have 1: "evaluate example_env (Some ?ex)
      (Some (StatusError 500 ''internal error'')) (Unstructured None) = Inr (True, False, [])"
    by blast
  from A have "errorOK ?ex (newAssertions (Some ?ex)
        (Some (StatusError 500 ''internal error'')) (Unstructured None)) =
      (if Error ?ex \<noteq> [] \<and> Unstructured None \<noteq> NilResponse
            then (False, (Fail (newAssertions (Some ?ex) None (Unstructured None))
                    (UnexpectedError None))\<lparr>terminal := True\<rparr>)
            else (True, newAssertions (Some ?ex) None (Unstructured None)))"
    by blast
  with e have 2: "errorOK ?ex (newAssertions (Some ?ex)
        (Some (StatusError 500 ''internal error'')) (Unstructured None)) =
      (True, newAssertions (Some ?ex) None (Unstructured None))"
    by simp
  from B e2 r have 3: "evaluate example_env (Some ?ex2)
      (Some (StatusError 500 ''internal error'')) (Unstructured None) =
      Inr (False, True, [UnexpectedError None])"
    by blast
  from 1 2 3 show ?thesis by blast
qed

text \<open>
  C3, as stated, fails when the response is the nil interface: the substring check is
  skipped, and the error that is still set is reported as unexpected, terminally.
\<close>

theorem error_substring_counterexample:
  "evaluate example_env (Some (example_expect\<lparr>Error := ''foo''\<rparr>))
     (Some (OtherError ''bar'')) NilResponse =
     Inr (False, True, [UnexpectedError (Some (OtherError ''bar''))])"
  by (simp add: eval_defs example_expect_def)

text \<open>
  C3, amended. When the expectation declares a non-empty error substring, the response
  is not the nil interface, and the error still set after the swallowing does not
  contain the substring, the evaluation fails with the single failure "not in" and the
  terminal flag unset.
\<close>

theorem error_substring_mismatch_not_terminal:
  assumes "Error ex \<noteq> []" "rs \<noteq> NilResponse"
    and "swallowExpected ex (newAssertions (Some ex) er rs) = Inr a1"
    and "err a1 = Some e"
    and "\<not> Contains (Error_text e) (Error ex)"
  shows "evaluate en (Some ex) er rs = Inr (False, False, [NotIn (Error_text e) (Error ex)])"
proof -
  from swallowExpected_Inr [OF assms(3)] assms(4)
  have a1: "a1 = newAssertions (Some ex) er rs"
    by auto
  have "errorOK ex (newAssertions (Some ex) er rs) = (False, Fail a1 (NotIn (Error_text e) (Error ex)))"
    using assms(1,2,4,5) by (simp add: errorOK_def assms(3)) (simp add: a1)
  then show ?thesis
    by (simp add: evaluate_def OK_def a1 Terminal_def Failures_def Fail_def)
qed

theorem error_substring_mismatch_not_terminal_witness:
  "evaluate example_env (Some (example_expect\<lparr>Error := ''foo''\<rparr>))
     (Some (OtherError ''bar'')) (Unstructured None) = Inr (False, False, [NotIn ''bar'' ''foo''])"
proof -
  let ?ex = "example_expect\<lparr>Error := ''foo''\<rparr>"
  let ?a = "newAssertions (Some ?ex) (Some (OtherError ''bar'')) (Unstructured None)"
  have 1: "Error ?ex \<noteq> []" by simp
  have 2: "Unstructured None \<noteq> NilResponse" by simp
  have 3: "swallowExpected ?ex ?a = Inr ?a"
    by (simp add: swallowExpected_def newAssertions_def)
  have 4: "err ?a = Some (OtherError ''bar'')" by simp
  have 5: "\<not> Contains (Error_text (OtherError ''bar'')) (Error ?ex)"
    by (simp add: Contains_def)
  from error_substring_mismatch_not_terminal [OF 1 2 3 4 5, of example_env]
  show ?thesis by simp
qed

text \<open>
  C6, as stated, fails when the count is right but another declared check fails: a
  declared error substring makes the evaluation fail terminally for want of an error,
  and declared payload assertions may fail.
\<close>

theorem list_length_counterexample:
  "evaluate example_env (Some (example_expect\<lparr>Len := Some 3, Error := ''boom''\<rparr>)) None
     (UnstructuredList (Some [[], [], []])) = Inr (False, True, [UnexpectedError None]) \<and>
   evaluate example_env (Some (example_expect\<lparr>Len := Some 3, JSON := Some ()\<rparr>)) None
     (UnstructuredList (Some [[], [], []])) = Inr (False, False, [JSONFailure ''payload mismatch''])"
  by (simp add: eval_defs example_env_def example_expect_def)

text \<open>
  C6, amended. For a list outcome without an action error, a declared count \<open>N\<close> and no
  declared error substring: when the item count differs from \<open>N\<close>, the evaluation fails
  with exactly one failure, the length mismatch, and the terminal flag unset, whatever
  matches document or payload assertions are declared; when the item count is \<open>N\<close>, no
  payload assertions are declared and the matches document, if any, resolves, the
  evaluation passes.
\<close>

theorem list_length_check:
  assumes "Error ex = []" "Len ex = Some n"
  shows "(int (length items) \<noteq> n \<longrightarrow>
            evaluate en (Some ex) None (UnstructuredList (Some items)) =
              Inr (False, False, [NotEqualLength n (int (length items))])) \<and>
         (int (length items) = n \<and> JSON ex = None \<and>
            (Matches ex = DNil \<or> (\<exists>mo. matchObjectFromAny en (Matches ex) = Inr mo)) \<longrightarrow>
            evaluate en (Some ex) None (UnstructuredList (Some items)) = Inr (True, False, []))"
proof -
  let ?a = "newAssertions (Some ex) None (UnstructuredList (Some items))"
  have e: "errorOK ex ?a = (True, ?a)"
    using assms by (simp add: errorOK_def swallow_none)
  have l: "lenOK ex ?a =
      (if int (length items) \<noteq> n then (False, Fail ?a (NotEqualLength n (int (length items))))
       else (True, ?a))"
    using assms by (simp add: lenOK_def)
  have m: "Matches ex = DNil \<or> (\<exists>mo. matchObjectFromAny en (Matches ex) = Inr mo) \<Longrightarrow>
      matchesOK en ex ?a = Inr (True, ?a)"
    by (auto simp: matchesOK_def)
  have j: "JSON ex = None \<Longrightarrow> jsonOK en ex ?a = Inr (True, ?a)"
    by (simp add: jsonOK_def)
  show ?thesis
    using m j by (auto simp add: evaluate_def OK_Some e l Fail_def Terminal_def Failures_def)
qed

theorem list_length_check_witness:
  "evaluate example_env (Some (example_expect\<lparr>Len := Some 2, Matches := DMap [(''a'', DInt 1)]\<rparr>)) None
     (UnstructuredList (Some [[], [], []])) = Inr (False, False, [NotEqualLength 2 3]) \<and>
   evaluate example_env (Some (example_expect\<lparr>Len := Some 2, Matches := DMap [(''a'', DInt 1)]\<rparr>)) None
     (UnstructuredList (Some [[], []])) = Inr (True, False, [])"
  using list_length_check [of "example_expect\<lparr>Len := Some 2, Matches := DMap [(''a'', DInt 1)]\<rparr>" 2
      "[[], [], []]" example_env]
    list_length_check [of "example_expect\<lparr>Len := Some 2, Matches := DMap [(''a'', DInt 1)]\<rparr>" 2
      "[[], []]" example_env]
  by (simp add: example_expect_def matchObjectFromAny_def)



text \<open>
  C9. During one evaluation of fresh assertions, the terminal flag never goes from true
  to false: over the states after each check, in order, a state with the flag set is
  followed only by states with the flag set. The payload check assigns the flag, but it
  runs only after checks that left the flag unset.
\<close>

theorem terminal_flag_monotonic:
  assumes "OK en (newAssertions (Some ex) er rs) = Inr (ok, a')"
  shows "\<exists>sts. OK_states en ex (newAssertions (Some ex) er rs) = Inr sts \<and>
           hd sts = newAssertions (Some ex) er rs \<and> last sts = a' \<and>
           sorted_wrt (\<lambda>s s'. terminal s \<longrightarrow> terminal s') sts"
proof -
  let ?a = "newAssertions (Some ex) er rs"
  have ta: "\<not> terminal ?a" by simp
  obtain b1 a1 where e: "errorOK ex ?a = (b1, a1)" by (cases "errorOK ex ?a")
  show ?thesis
  proof (cases b1)
    case False
    with e assms ta show ?thesis by (simp add: OK_Some OK_states_def)
  next
    case b1: True
    with e ta have t1: "\<not> terminal a1" by (auto dest: errorOK_True)
    obtain b2 a2 where l: "lenOK ex a1 = (b2, a2)" by (cases "lenOK ex a1")
    with t1 have t2: "\<not> terminal a2" by (auto dest: lenOK_terminal)
    show ?thesis
    proof (cases b2)
      case False
      with e b1 l assms ta t1 t2 show ?thesis by (simp add: OK_Some OK_states_def)
    next
      case b2: True
      from assms e b1 l b2 obtain b3 a3 where m: "matchesOK en ex a2 = Inr (b3, a3)"
        by (cases "matchesOK en ex a2") (auto simp: OK_Some)
      with t2 have t3: "\<not> terminal a3" by (auto dest: matchesOK_terminal)
      show ?thesis
      proof (cases b3)
        case False
        with e b1 l b2 m assms ta t1 t2 t3 show ?thesis by (simp add: OK_Some OK_states_def)
      next
        case b3: True
        from assms e b1 l b2 m b3 obtain b4 a4 where j: "jsonOK en ex a3 = Inr (b4, a4)"
          by (cases "jsonOK en ex a3") (auto simp: OK_Some)
        with e b1 l b2 m b3 assms ta t1 t2 t3 show ?thesis
          by (cases b4) (simp_all add: OK_Some OK_states_def)
      qed
    qed
  qed
qed

theorem terminal_flag_monotonic_witness:
  "\<exists>sts. OK_states example_env_terminal (example_expect\<lparr>JSON := Some ()\<rparr>)
            (newAssertions (Some (example_expect\<lparr>JSON := Some ()\<rparr>)) None (Unstructured (Some []))) = Inr sts \<and>
         terminal (last sts) \<and>
         sorted_wrt (\<lambda>s s'. terminal s \<longrightarrow> terminal s') sts"
proof -
  let ?ex = "example_expect\<lparr>JSON := Some ()\<rparr>"
  have "OK example_env_terminal (newAssertions (Some ?ex) None (Unstructured (Some []))) =
      Inr (False, (newAssertions (Some ?ex) None (Unstructured (Some [])))
             \<lparr>terminal := True, failures := [JSONFailure ''bad schema'']\<rparr>)"
    by (simp add: eval_defs example_env_terminal_def example_env_def example_expect_def)
  from terminal_flag_monotonic [OF this] show ?thesis by auto
qed

text \<open>
  C10. A declared Matches value that is neither a string nor a map from strings to
  values resolves to the empty match object; comparing any resource with the empty
  match object gives no difference; so \<open>matchesOK\<close> returns true and records nothing.
\<close>

theorem unsupported_matches_never_fail:
  assumes "\<forall>s. m \<noteq> DString s" "\<forall>mm. m \<noteq> DMap mm"
  shows "matchObjectFromAny en m = Inr [] \<and>
         compareResourceToMatchObject res [] = Inr [] \<and>
         (Matches ex = m \<longrightarrow> matchesOK en ex a = Inr (True, a))"
proof -
  from assms have mo: "matchObjectFromAny en m = Inr []"
    by (cases m) (simp_all add: matchObjectFromAny_def)
  have cmp: "\<And>res. compareResourceToMatchObject res [] = Inr []"
    by (simp add: compareResourceToMatchObject_def typesComparable_def)
  have "Matches ex = m \<Longrightarrow> matchesOK en ex a = Inr (True, a)"
    by (simp add: matchesOK_def mo cmp split: response.splits option.splits)
  with mo cmp show ?thesis by simp
qed

theorem unsupported_matches_never_fail_witness:
  "matchObjectFromAny example_env (DList [DInt 1]) = Inr [] \<and>
   matchesOK example_env (example_expect\<lparr>Matches := DList [DInt 1]\<rparr>)
     (newAssertions (Some (example_expect\<lparr>Matches := DList [DInt 1]\<rparr>)) None
        (Unstructured (Some [(''kind'', DString ''Pod'')]))) =
     Inr (True, newAssertions (Some (example_expect\<lparr>Matches := DList [DInt 1]\<rparr>)) None
        (Unstructured (Some [(''kind'', DString ''Pod'')])))"
  using unsupported_matches_never_fail [of "DList [DInt 1]" example_env "[]"
      "example_expect\<lparr>Matches := DList [DInt 1]\<rparr>"
      "newAssertions (Some (example_expect\<lparr>Matches := DList [DInt 1]\<rparr>)) None
        (Unstructured (Some [(''kind'', DString ''Pod'')]))"]
  by simp

text \<open>
  C4. The comparison the claim describes does not happen on three kinds of pair that the
  code itself names. A string expected against an \<open>int64\<close>, the type of every integer of
  a resource read from the API server, panics at \<open>subject.(int)\<close>, in the comparator and
  so in \<open>matchesOK\<close>; that is the claim's own \<open>compare({n: "2"}, {n: 3})\<close>. An \<open>int16\<close>
  against a string of the same number is reported as non-comparable types, since
  \<open>typesComparable\<close> lists no \<open>Int16\<close>. An unsigned integer against a string of the same
  number is always a difference, since the type switch has no unsigned case.
\<close>

theorem int_string_failing_inputs:
  "compareResourceToMatchObject [(''n'', DInt64 3)] [(''n'', DString ''2'')] =
     Inl (Panic ''interface conversion: interface {} is int64, not int'') \<and>
   matchesOK example_env (example_expect\<lparr>Matches := DMap [(''n'', DString ''2'')]\<rparr>)
     (newAssertions (Some (example_expect\<lparr>Matches := DMap [(''n'', DString ''2'')]\<rparr>)) None
        (Unstructured (Some [(''n'', DInt64 3)]))) =
     Inl (Panic ''interface conversion: interface {} is int64, not int'') \<and>
   compareResourceToMatchObject [(''n'', DString ''2'')] [(''n'', DInt16 2)] =
     Inr [NonComparableTypes ''$.n'' KInt16 KString] \<and>
   compareResourceToMatchObject [(''n'', DString ''2'')] [(''n'', DUint 2)] =
     Inr [DifferentValues ''$.n'' (DUint 2) (DString ''2'')]"
  by (simp add: compareResourceToMatchObject_def typesComparable_def collectScalarDifferences_def
        is_int_kind_def is_uint_kind_def conversion_panic_def DeepEqual.simps
        matchesOK_def hasSubject_def matchObjectFromAny_def example_expect_def)

text \<open>
  The pairs on which the comparator does compare an integer with a string. An expected
  \<open>int\<close>, \<open>int8\<close>, \<open>int32\<close> or \<open>int64\<close> against a string: the integer is widened to
  \<open>int64\<close>, the string is parsed by \<open>Atoi\<close>, and there is no difference exactly when the
  string parses to the widened value. An expected string against an \<open>int\<close>: there is no
  difference exactly when the string is the decimal text of the integer, so the
  expected \<open>"+2"\<close>, which parses to 2, differs from the integer 2.
\<close>

lemma int_string_comparison:
  "(kind_of m \<in> {KInt, KInt8, KInt32, KInt64} \<longrightarrow>
      collectFieldDifferences fp m (DString s) delta =
        Inr (if Atoi s = Some (sint (toInt64 m)) then delta
             else delta @ [DifferentValues fp m (DString s)])) \<and>
   collectFieldDifferences fp (DString s) (DInt i) delta =
        Inr (if s = Itoa i then delta else delta @ [DifferentValues fp (DString s) (DInt i)]) \<and>
   compareResourceToMatchObject [(''n'', DString ''2'')] [(''n'', DInt 2)] = Inr [] \<and>
   compareResourceToMatchObject [(''n'', DInt 3)] [(''n'', DString ''2'')] =
        Inr [DifferentValues ''$.n'' (DString ''2'') (DInt 3)]"
proof (intro conjI impI)
  assume k: "kind_of m \<in> {KInt, KInt8, KInt32, KInt64}"
  then have "typesComparable m (DString s)" by (auto simp: typesComparable_def)
  with k scalar_int_string [OF k] show "collectFieldDifferences fp m (DString s) delta =
        Inr (if Atoi s = Some (sint (toInt64 m)) then delta
             else delta @ [DifferentValues fp m (DString s)])"
    by (cases m) simp_all
next
  show "collectFieldDifferences fp (DString s) (DInt i) delta =
        Inr (if s = Itoa i then delta else delta @ [DifferentValues fp (DString s) (DInt i)])"
    by (simp add: typesComparable_def collectScalarDifferences_def is_int_kind_def is_uint_kind_def)
next
  show "compareResourceToMatchObject [(''n'', DString ''2'')] [(''n'', DInt 2)] = Inr []"
    by (simp add: compareResourceToMatchObject_def typesComparable_def collectScalarDifferences_def
        is_int_kind_def is_uint_kind_def Atoi_def is_digit_def digits_value_def)
next
  show "compareResourceToMatchObject [(''n'', DInt 3)] [(''n'', DString ''2'')] =
        Inr [DifferentValues ''$.n'' (DString ''2'') (DInt 3)]"
    by (simp add: compareResourceToMatchObject_def typesComparable_def collectScalarDifferences_def
        is_int_kind_def is_uint_kind_def Itoa_def string_of_int_def string_of_nat.simps)
qed

lemma string_expected_is_compared_as_text:
  "collectFieldDifferences ''$.n'' (DString ''+2'') (DInt 2) [] =
     Inr [DifferentValues ''$.n'' (DString ''+2'') (DInt 2)] \<and>
   Atoi ''+2'' = Some 2"
  by (simp add: typesComparable_def collectScalarDifferences_def
        is_int_kind_def is_uint_kind_def Atoi_def is_digit_def digits_value_def
        Itoa_def string_of_int_def string_of_nat.simps)

text \<open>
  C5, as stated, fails on a document that holds a NaN, which \<open>reflect.DeepEqual\<close> finds
  different from itself.
\<close>

theorem comparator_reflexive_counterexample:
  "compareResourceToMatchObject [(''a'', DFloat64 0x7FF8000000000000)] [(''a'', DFloat64 0x7FF8000000000000)]
    = Inr [DifferentValues ''$.a'' (DFloat64 0x7FF8000000000000) (DFloat64 0x7FF8000000000000)]"
  by (simp add: compareResourceToMatchObject_def typesComparable_def collectScalarDifferences_def
      is_int_kind_def is_uint_kind_def DeepEqual_Float nan_not_equal)

text \<open>
  C5, amended. For every document \<open>X\<close> in which no float is a NaN, \<open>compare(X, X)\<close> has
  no difference.
\<close>

theorem comparator_reflexive:
  assumes "wf_doc (DMap X)" "NaN_free (DMap X)"
  shows "compareResourceToMatchObject X X = Inr []"
  using collect_refl [OF assms] by (simp only: compareResourceToMatchObject_def)

theorem comparator_reflexive_witness:
  "compareResourceToMatchObject
     [(''kind'', DString ''Pod''), (''spec'', DMap [(''replicas'', DInt64 2), (''ports'', DList [DInt64 80, DFloat64 0])])]
     [(''kind'', DString ''Pod''), (''spec'', DMap [(''replicas'', DInt64 2), (''ports'', DList [DInt64 80, DFloat64 0])])]
   = Inr []"
  by (rule comparator_reflexive) (simp_all add: float64_isNaN_def)

end
